theory Spec2Isabelle
  imports Complex_Main "HOL-Library.Log_Nat" "HOL-Library.Sublist"
begin

section \<open>Python values used by \<^verbatim>\<open>bin/weewx/restful.py\<close>\<close>

subsection \<open>Floats\<close>

text \<open>
  A finite Python float is a binary64 number, hence a rational; the model keeps the
  rational it denotes. Comparison and \<^verbatim>\<open>int()\<close> are exact on floats. The result of
  an arithmetic operation is the exact result rounded to the nearest float, ties to the
  float with an even significand (53 bits, gradual underflow below \<open>2 powi - 1022\<close>).
  Infinities and NaN are not values of the model, so the exponent has no upper limit.
\<close>

definition ilog2 :: "rat \<Rightarrow> int" where
  "ilog2 q = (let (a, b) = quotient_of q; d = bitlen a - bitlen b
              in if 2 powi d \<le> q then d else d - 1)"

definition round_half_even :: "rat \<Rightarrow> int" where
  "round_half_even q = (let f = \<lfloor>q\<rfloor>; r = q - of_int f
     in if r < 1 / 2 then f else if 1 / 2 < r then f + 1 else if even f then f else f + 1)"

definition round_double :: "rat \<Rightarrow> rat" where
  "round_double q = (if q = 0 then 0 else
     let u = 2 powi (max (ilog2 \<bar>q\<bar>) (- 1022) - 52)
     in sgn q * of_int (round_half_even (\<bar>q\<bar> / u)) * u)"


text \<open>\<^verbatim>\<open>float(n)\<close> for a Python int, \<^verbatim>\<open>a * b\<close> and \<^verbatim>\<open>a - b\<close> on floats.\<close>

definition float_of_int :: "int \<Rightarrow> rat" where
  "float_of_int n = round_double (of_int n)"

definition fmul :: "rat \<Rightarrow> rat \<Rightarrow> rat" where
  "fmul a b = round_double (a * b)"

definition fsub :: "rat \<Rightarrow> rat \<Rightarrow> rat" where
  "fsub a b = round_double (a - b)"

text \<open>\<^verbatim>\<open>int(x)\<close> on a float drops the fractional part.\<close>

definition py_int :: "rat \<Rightarrow> int" where
  "py_int q = (if 0 \<le> q then \<lfloor>q\<rfloor> else \<lceil>q\<rceil>)"

subsection \<open>Strings and formatting\<close>

text \<open>
  Strings are taken as ASCII, one \<^typ>\<open>char\<close> per character, so that
  \<^verbatim>\<open>str.encode()\<close> is the identity and \<^verbatim>\<open>str.upper()\<close> maps \<open>a\<close>..\<open>z\<close> to \<open>A\<close>..\<open>Z\<close>.
\<close>

definition upper_char :: "char \<Rightarrow> char" where
  "upper_char c = (let n = (of_char c :: nat)
     in if 97 \<le> n \<and> n \<le> 122 then char_of (n - 32) else c)"

definition upper :: "string \<Rightarrow> string" where
  "upper s = map upper_char s"

definition digit_char :: "int \<Rightarrow> char" where
  "digit_char d = char_of (48 + d)"

text \<open>The decimal digits of a non-negative int, as \<^verbatim>\<open>str\<close> prints them.\<close>

function dec_digits :: "int \<Rightarrow> string" where
  "dec_digits n = (if n < 10 then [digit_char n]
                   else dec_digits (n div 10) @ [digit_char (n mod 10)])"
  by pat_completeness auto
termination
  by (relation "measure nat") auto

declare dec_digits.simps [simp del]

definition zfill :: "nat \<Rightarrow> string \<Rightarrow> string" where
  "zfill w s = replicate (w - length s) (CHR ''0'') @ s"

text \<open>The format specification \<^verbatim>\<open>{n:0wd}\<close>: the sign first, then zeros up to width \<open>w\<close>.\<close>

definition fmt_d :: "nat \<Rightarrow> int \<Rightarrow> string" where
  "fmt_d w n = (if n < 0 then CHR ''-'' # zfill (w - 1) (dec_digits (- n))
                else zfill w (dec_digits n))"

definition CR :: string where
  "CR = [CHR 0x0D]"

definition CTRL_C :: string where
  "CTRL_C = [CHR 0x03]"

subsection \<open>Exceptions\<close>

text \<open>
  Every \<^verbatim>\<open>raise\<close> is a value. \<open>APRSError\<close> is the class of the source; the others are
  the built-in exceptions the source raises or lets through, \<open>SerialException\<close> is
  \<^verbatim>\<open>serial.SerialException\<close>, and \<open>OtherException\<close> any other \<^verbatim>\<open>Exception\<close> a
  collaborator raises.
\<close>

datatype py_exn =
    APRSError string
  | TypeError string
  | ValueError string
  | KeyError string
  | AttributeError string
  | SerialException string
  | OtherException string

text \<open>\<^verbatim>\<open>str(e)\<close>: the message; for a \<open>KeyError\<close> the quoted key.\<close>

fun exn_str :: "py_exn \<Rightarrow> string" where
  "exn_str (APRSError m) = m"
| "exn_str (TypeError m) = m"
| "exn_str (ValueError m) = m"
| "exn_str (KeyError k) = [CHR 0x27] @ k @ [CHR 0x27]"
| "exn_str (AttributeError m) = m"
| "exn_str (SerialException m) = m"
| "exn_str (OtherException m) = m"

text \<open>\<^verbatim>\<open>raise "..."\<close> with a \<^verbatim>\<open>str\<close> operand: Python 3 raises this \<open>TypeError\<close> instead.\<close>

definition raise_str :: py_exn where
  "raise_str = TypeError ''exceptions must derive from BaseException''"

section \<open>Configuration\<close>

definition VALID_PARITIES :: "string set" where
  "VALID_PARITIES = {''N'', ''E'', ''O'', ''M'', ''S''}"

text \<open>
  The message of the source's \<open>ValueError\<close> goes on with \<^verbatim>\<open>. Must be one of\<close> and the
  set as Python prints it, in an order the language leaves open; the model keeps the
  fixed part.
\<close>

definition validate_parity :: "string \<Rightarrow> py_exn + string" where
  "validate_parity p = (let p' = upper p
     in if p' \<notin> VALID_PARITIES then Inl (ValueError ''Invalid parity value'')
        else Inr p')"

datatype APRSStatus = DISABLED | STALE | INTERVAL_WAIT | NON_LATEST | INVALID_UNITS | SUCCESS

record APRSConfig =
  station :: string
  latitude :: rat
  longitude :: rat
  hardware :: string
  port :: string
  baudrate :: int
  databits :: int
  parity :: string
  stopbits :: int
  unproto :: string
  status_message :: string
  enabled :: bool
  interval :: int
  stale :: int
  max_tries :: int

text \<open>
  \<^verbatim>\<open>APRSConfig.__post_init__\<close>, run by the generated constructor on the fields as given:
  the result is the object, or the first \<open>ValueError\<close>. The fields are the values
  \<^verbatim>\<open>APRS.__init__\<close> passes on, after its \<^verbatim>\<open>float\<close>, \<^verbatim>\<open>int\<close> and \<^verbatim>\<open>bool\<close> conversions.
\<close>

definition post_init :: "APRSConfig \<Rightarrow> py_exn + APRSConfig" where
  "post_init c =
     (let c1 = c\<lparr>station := upper (station c)\<rparr>
      in case validate_parity (parity c1) of
           Inl e \<Rightarrow> Inl e
         | Inr p \<Rightarrow>
            (let c2 = c1\<lparr>parity := p\<rparr>
             in if \<not> (- 90 \<le> latitude c2 \<and> latitude c2 \<le> 90)
                  then Inl (ValueError ''Latitude must be between -90 and 90 degrees'')
                else if \<not> (- 180 \<le> longitude c2 \<and> longitude c2 \<le> 180)
                  then Inl (ValueError ''Longitude must be between -180 and 180 degrees'')
                else if interval c2 < 0
                  then Inl (ValueError ''Interval cannot be negative'')
                else if stale c2 < 0
                  then Inl (ValueError ''Stale threshold cannot be negative'')
                else if max_tries c2 < 1
                  then Inl (ValueError ''Max tries must be at least 1'')
                else Inr c2))"

section \<open>The uploader\<close>

text \<open>
  An observation record is a dict from field names to a float or \<^verbatim>\<open>None\<close>.
  \<^verbatim>\<open>record.get(k)\<close> is \<^verbatim>\<open>None\<close> for a missing key, \<^verbatim>\<open>record[k]\<close> raises \<open>KeyError\<close>.
\<close>

type_synonym obs_record = "string \<rightharpoonup> rat option"

definition rec_get :: "obs_record \<Rightarrow> string \<Rightarrow> rat option" where
  "rec_get r k = (case r k of None \<Rightarrow> None | Some v \<Rightarrow> v)"

definition rec_item :: "obs_record \<Rightarrow> string \<Rightarrow> py_exn + rat option" where
  "rec_item r k = (case r k of None \<Rightarrow> Inl (KeyError k) | Some v \<Rightarrow> Inr v)"

text \<open>
  The archive collaborator: \<^verbatim>\<open>archive.lastGoodStamp()\<close> (\<^verbatim>\<open>None\<close> for an empty archive)
  and the record it stores at a timestamp.
\<close>

record archive =
  lastGoodStamp :: "int option"
  record_at :: "int \<Rightarrow> py_exn + obs_record"

text \<open>
  The \<^verbatim>\<open>APRS\<close> object: its configuration, \<^verbatim>\<open>_lastpost\<close>, which starts as \<^verbatim>\<open>None\<close>, and
  what the attribute \<^verbatim>\<open>extractRecordFrom\<close> of the object is. \<^verbatim>\<open>postData\<close> calls
  \<^verbatim>\<open>self.extractRecordFrom(archive, time_ts)\<close>, but the class \<^verbatim>\<open>APRS\<close> defines no such
  method and has no base class: for an instance of the class as the source has it the
  attribute is missing (\<open>None\<close>), and only an instance of a subclass that defines the
  method has one (\<open>Some f\<close>).
\<close>

record APRS =
  config :: APRSConfig
  lastpost :: "int option"
  extractRecordFrom :: "(archive \<Rightarrow> int \<Rightarrow> py_exn + obs_record) option"

text \<open>
  What the source takes from modules outside the file: the constant \<^verbatim>\<open>weewx.US\<close>,
  \<^verbatim>\<open>time.strftime(fmt, time.gmtime(secs))\<close>, the text that the f-string of
  \<^verbatim>\<open>format_weather_data\<close> inserts for what \<^verbatim>\<open>weeutil.weeutil.latlon_string\<close> returns
  (there a tuple of the degrees, the minutes and the hemisphere letter), and the
  conversion of a barometer reading in the record's unit system to millibars by
  \<^verbatim>\<open>weewx.units\<close>.
\<close>

record extern =
  weewx_US :: rat
  strftime_gmtime :: "string \<Rightarrow> rat option \<Rightarrow> string"
  latlon_string :: "rat \<Rightarrow> string \<times> string \<Rightarrow> string \<Rightarrow> string"
  barometer_mbar :: "rat option \<Rightarrow> rat \<Rightarrow> py_exn + rat"

subsection \<open>The gate\<close>

text \<open>Truth value of an \<^verbatim>\<open>Optional[int]\<close>: \<^verbatim>\<open>None\<close> and \<open>0\<close> are false.\<close>

definition truthy :: "int option \<Rightarrow> bool" where
  "truthy v = (case v of None \<Rightarrow> False | Some n \<Rightarrow> n \<noteq> 0)"

text \<open>\<open>now\<close> is the value of \<^verbatim>\<open>time.time()\<close>.\<close>

definition how_old :: "rat \<Rightarrow> int \<Rightarrow> rat" where
  "how_old now time_ts = fsub now (float_of_int time_ts)"

definition check_post_conditions :: "APRS \<Rightarrow> archive \<Rightarrow> rat \<Rightarrow> int \<Rightarrow> APRSStatus" where
  "check_post_conditions self arch now time_ts =
     (if \<not> enabled (config self) then DISABLED
      else if Some time_ts \<noteq> lastGoodStamp arch then NON_LATEST
      else if how_old now time_ts > of_int (stale (config self)) then STALE
      else if (case lastpost self of
                 None \<Rightarrow> False
               | Some lp \<Rightarrow> truthy (Some lp) \<and> time_ts - lp < interval (config self))
        then INTERVAL_WAIT
      else SUCCESS)"

subsection \<open>The packet encoder\<close>

definition format_wind_temp :: "obs_record \<Rightarrow> string" where
  "format_wind_temp r =
     (let values = map (\<lambda>field. case rec_get r field of
                                    Some val \<Rightarrow> fmt_d 3 (py_int val)
                                  | None \<Rightarrow> ''...'')
                       [''windDir'', ''windSpeed'', ''windGust'', ''outTemp'']
      in ''_'' @ values ! 0 @ ''/'' @ values ! 1 @ ''g'' @ values ! 2 @ ''t'' @ values ! 3)"

definition format_rain :: "obs_record \<Rightarrow> string" where
  "format_rain r =
     (let values = map (\<lambda>field. case rec_get r field of
                                    Some val \<Rightarrow> fmt_d 3 (py_int (fmul val 100))
                                  | None \<Rightarrow> ''...'')
                       [''rain'', ''rain24'', ''dailyrain'']
      in ''r'' @ values ! 0 @ ''p'' @ values ! 1 @ ''P'' @ values ! 2)"

definition format_barometer :: "extern \<Rightarrow> obs_record \<Rightarrow> py_exn + string" where
  "format_barometer ext r =
     (case rec_get r ''barometer'' of
        None \<Rightarrow> Inr ''b.....''
      | Some baro \<Rightarrow>
         (case rec_item r ''usUnits'' of
            Inl e \<Rightarrow> Inl e
          | Inr us \<Rightarrow>
             (case barometer_mbar ext us baro of
                Inl e \<Rightarrow> Inl e
              | Inr baro_mbar \<Rightarrow> Inr (''b'' @ fmt_d 5 (py_int (fmul baro_mbar 10))))))"

definition format_humidity :: "obs_record \<Rightarrow> string" where
  "format_humidity r =
     (case rec_get r ''outHumidity'' of
        None \<Rightarrow> ''h..''
      | Some humidity \<Rightarrow>
          if humidity < 100 then ''h'' @ fmt_d 2 (py_int humidity) else ''h00'')"

definition format_radiation :: "obs_record \<Rightarrow> string" where
  "format_radiation r =
     (case rec_get r ''radiation'' of
        None \<Rightarrow> ''''
      | Some radiation \<Rightarrow>
          if radiation < 1000 then ''L'' @ fmt_d 3 (py_int radiation)
          else if radiation < 2000 then ''l'' @ fmt_d 3 (py_int (fsub radiation 1000))
          else '''')"

definition format_weather_data :: "extern \<Rightarrow> APRSConfig \<Rightarrow> obs_record \<Rightarrow> py_exn + string" where
  "format_weather_data ext c r =
     (case rec_item r ''dateTime'' of
        Inl e \<Rightarrow> Inl e
      | Inr secs \<Rightarrow>
         (let time_str = strftime_gmtime ext ''@%d%H%Mz'' secs;
              lat_str = latlon_string ext (latitude c) (''N'', ''S'') ''lat'';
              lon_str = latlon_string ext (longitude c) (''E'', ''W'') ''lon'';
              latlon_str = lat_str @ lon_str;
              wind_temp = format_wind_temp r;
              rain = format_rain r
          in case format_barometer ext r of
               Inl e \<Rightarrow> Inl e
             | Inr baro \<Rightarrow>
                (let humidity = format_humidity r;
                     radiation = format_radiation r;
                     hardware_str = (if hardware c = ''VantagePro'' then ''.DsVP'' else ''.Unkn'')
                 in Inr (time_str @ latlon_str @ wind_temp @ rain @ baro @ humidity
                         @ radiation @ hardware_str))))"

subsection \<open>The serial line and the TNC\<close>

text \<open>
  What happens on the serial port and the clock is a trace of events. A device says, for
  the trace so far and the next call on the port, whether the call returns
  (\<open>None\<close>) or raises. A call that raises leaves no event.
\<close>

datatype event =
    SerialOpen string int int string int
  | FlushOutput
  | FlushInput
  | Write string
  | Sleep int
  | Close

type_synonym device = "event list \<Rightarrow> event \<Rightarrow> py_exn option"

text \<open>One call on the port.\<close>

definition call :: "device \<Rightarrow> event \<Rightarrow> event list \<Rightarrow> py_exn option \<times> event list" where
  "call dev ev tr = (case dev tr ev of Some e \<Rightarrow> (Some e, tr) | None \<Rightarrow> (None, tr @ [ev]))"

text \<open>The \<^verbatim>\<open>for cmd, delay in commands\<close> loop of \<^verbatim>\<open>_send_tnc_commands\<close>.\<close>

fun send_loop :: "device \<Rightarrow> (string \<times> int) list \<Rightarrow> event list \<Rightarrow> py_exn option \<times> event list" where
  "send_loop dev [] tr = (None, tr)"
| "send_loop dev ((cmd, delay) # cs) tr =
     (case call dev (Write cmd) tr of
        (Some e, tr') \<Rightarrow> (Some e, tr')
      | (None, tr') \<Rightarrow> send_loop dev cs (if delay \<noteq> 0 then tr' @ [Sleep delay] else tr'))"

definition commands :: "APRSConfig \<Rightarrow> string \<Rightarrow> (string \<times> int) list" where
  "commands c packet =
     [(CTRL_C, 1),
      (''mycall '' @ station c @ CR, 1),
      (''unproto '' @ unproto c @ CR, 1),
      (''conv'' @ CR, 1),
      (packet @ CR, 1),
      (''>'' @ status_message c @ CR, 1),
      (CTRL_C, 0)]"

definition send_tnc_commands :: "APRSConfig \<Rightarrow> device \<Rightarrow> string \<Rightarrow> event list \<Rightarrow> py_exn option \<times> event list" where
  "send_tnc_commands c dev packet tr =
     (case send_loop dev (commands c packet) tr of
        (Some (SerialException m), tr') \<Rightarrow>
           (Some (APRSError (''Failed to send TNC commands: '' @ m)), tr')
      | (res, tr') \<Rightarrow> (res, tr'))"

text \<open>
  The body of the \<^verbatim>\<open>with serial.Serial(...) as ser\<close> statement of \<^verbatim>\<open>postData\<close>, and the
  statement itself: the port is opened by the constructor, with the five serial
  parameters of the configuration, and closed on the way out, also when the body raises.
\<close>

definition session_body :: "APRSConfig \<Rightarrow> device \<Rightarrow> string \<Rightarrow> event list \<Rightarrow> py_exn option \<times> event list" where
  "session_body c dev packet tr =
     (case call dev FlushOutput tr of
        (Some e, tr1) \<Rightarrow> (Some e, tr1)
      | (None, tr1) \<Rightarrow>
         (case call dev FlushInput tr1 of
            (Some e, tr2) \<Rightarrow> (Some e, tr2)
          | (None, tr2) \<Rightarrow> send_tnc_commands c dev packet tr2))"

definition serial_open :: "APRSConfig \<Rightarrow> event" where
  "serial_open c = SerialOpen (port c) (baudrate c) (databits c) (parity c) (stopbits c)"

definition serial_session :: "APRSConfig \<Rightarrow> device \<Rightarrow> string \<Rightarrow> event list \<Rightarrow> py_exn option \<times> event list" where
  "serial_session c dev packet tr =
     (case call dev (serial_open c) tr of
        (Some e, tr0) \<Rightarrow> (Some e, tr0)
      | (None, tr0) \<Rightarrow>
         (case session_body c dev packet tr0 of (res, tr') \<Rightarrow> (res, tr' @ [Close])))"

text \<open>
  The \<^verbatim>\<open>try\<close> statement of \<^verbatim>\<open>postData\<close> and the assignment after it (lines 211 to 228):
  a \<open>SerialException\<close> and any other exception of the session become an \<open>APRSError\<close>,
  and \<^verbatim>\<open>_lastpost\<close> is set when the session has ended without one.
\<close>

definition transmit ::
  "APRS \<Rightarrow> device \<Rightarrow> string \<Rightarrow> int \<Rightarrow> event list \<Rightarrow> py_exn option \<times> APRS \<times> event list" where
  "transmit self dev packet time_ts tr =
     (case serial_session (config self) dev packet tr of
        (Some (SerialException m), tr') \<Rightarrow>
           (Some (APRSError (''Serial communication error: '' @ m)), self, tr')
      | (Some e, tr') \<Rightarrow>
           (Some (APRSError (''Unexpected error during APRS upload: '' @ exn_str e)), self, tr')
      | (None, tr') \<Rightarrow> (None, self\<lparr>lastpost := Some time_ts\<rparr>, tr'))"

text \<open>
  \<^verbatim>\<open>postData\<close>: the exception raised (or \<open>None\<close> when it returns), the object and the
  trace afterwards. The lookup of the missing attribute raises \<open>AttributeError\<close>.
\<close>

definition missing_method :: py_exn where
  "missing_method = AttributeError ([CHR 0x27] @ ''APRS'' @ [CHR 0x27]
     @ '' object has no attribute '' @ [CHR 0x27] @ ''extractRecordFrom'' @ [CHR 0x27])"

definition postData ::
  "extern \<Rightarrow> device \<Rightarrow> APRS \<Rightarrow> archive \<Rightarrow> rat \<Rightarrow> int \<Rightarrow> event list
     \<Rightarrow> py_exn option \<times> APRS \<times> event list" where
  "postData ext dev self arch now time_ts tr =
     (let status = check_post_conditions self arch now time_ts
      in if status \<noteq> SUCCESS then (Some raise_str, self, tr)
         else case extractRecordFrom self of
           None \<Rightarrow> (Some missing_method, self, tr)
         | Some f \<Rightarrow>
            (case f arch time_ts of
               Inl e \<Rightarrow> (Some e, self, tr)
             | Inr r \<Rightarrow>
                (case rec_item r ''usUnits'' of
                   Inl e \<Rightarrow> (Some e, self, tr)
                 | Inr us \<Rightarrow>
                    if us \<noteq> Some (weewx_US ext) then (Some raise_str, self, tr)
                    else case format_weather_data ext (config self) r of
                      Inl e \<Rightarrow> (Some e, self, tr)
                    | Inr packet \<Rightarrow> transmit self dev packet time_ts tr)))"

subsection \<open>The scripted sequence\<close>

text \<open>
  The events of a run of the command loop in which every write returns, and the sequence
  of section 4.4 of the specification between the opening and the closing of the port:
  both buffers flushed, then the seven commands with their waits.
\<close>

fun script_events :: "(string \<times> int) list \<Rightarrow> event list" where
  "script_events [] = []"
| "script_events ((cmd, delay) # cs) =
     Write cmd # (if delay \<noteq> 0 then [Sleep delay] else []) @ script_events cs"

definition tnc_script :: "APRSConfig \<Rightarrow> string \<Rightarrow> event list" where
  "tnc_script c packet =
     [FlushOutput, FlushInput,
      Write [CHR 0x03], Sleep 1,
      Write (''mycall '' @ station c @ [CHR 0x0D]), Sleep 1,
      Write (''unproto '' @ unproto c @ [CHR 0x0D]), Sleep 1,
      Write (''conv'' @ [CHR 0x0D]), Sleep 1,
      Write (packet @ [CHR 0x0D]), Sleep 1,
      Write (''>'' @ status_message c @ [CHR 0x0D]), Sleep 1,
      Write [CHR 0x03]]"

text \<open>The strings written to the port, in order.\<close>

fun writes :: "event list \<Rightarrow> string list" where
  "writes [] = []"
| "writes (Write s # es) = s # writes es"
| "writes (e # es) = writes es"

subsection \<open>Integer fields as the specification words them\<close>

text \<open>
  Truncation toward zero: the integer part of the magnitude, with the sign of the number.
  A field of width \<open>w\<close> is that integer zero-padded, or \<open>w\<close> dots when the value is
  absent; \<open>digits3\<close> are the three decimal digits of an integer from 0 to 999.
\<close>

definition toward_zero :: "rat \<Rightarrow> int" where
  "toward_zero x = (if x < 0 then - \<lfloor>- x\<rfloor> else \<lfloor>x\<rfloor>)"

definition int_field :: "nat \<Rightarrow> rat option \<Rightarrow> string" where
  "int_field w v = (case v of None \<Rightarrow> replicate w (CHR ''.'') | Some x \<Rightarrow> fmt_d w (toward_zero x))"

definition digits3 :: "int \<Rightarrow> string" where
  "digits3 n = [digit_char (n div 100), digit_char (n div 10 mod 10), digit_char (n mod 10)]"

section \<open>Concrete inputs\<close>

text \<open>
  A station, an observation and collaborators on which the definitions are evaluated. The
  observation is the one of the specification's encoder example; \<open>dbl n d\<close> is the
  float a decimal literal \<open>n / d\<close> denotes.
\<close>

definition dbl :: "int \<Rightarrow> int \<Rightarrow> rat" where
  "dbl n d = round_double (of_int n / of_int d)"

definition raw_config :: APRSConfig where
  "raw_config = \<lparr>station = ''n0call-13'', latitude = dbl 389 10, longitude = dbl (- 7703) 100,
     hardware = ''VantagePro'', port = ''/dev/ttyS0'', baudrate = 9600, databits = 8,
     parity = ''n'', stopbits = 1, unproto = ''APRS via WIDE2-1'',
     status_message = ''weewx'', enabled = True, interval = 600, stale = 1800,
     max_tries = 3\<rparr>"

definition station_config :: APRSConfig where
  "station_config = raw_config\<lparr>station := ''N0CALL-13'', parity := ''N''\<rparr>"

text \<open>The text of a tuple of three strings, as \<^verbatim>\<open>str\<close> prints it.\<close>

definition tuple3_text :: "string \<Rightarrow> string \<Rightarrow> string \<Rightarrow> string" where
  "tuple3_text a b c = ''('' @ [CHR 0x27] @ a @ [CHR 0x27] @ '', '' @ [CHR 0x27] @ b @ [CHR 0x27]
     @ '', '' @ [CHR 0x27] @ c @ [CHR 0x27] @ '')''"

definition sample_ext :: extern where
  "sample_ext = \<lparr>weewx_US = 1,
     strftime_gmtime = (\<lambda>fmt secs. if secs = Some 1710506040 then ''@151234z'' else ''@......z''),
     latlon_string = (\<lambda>ll hemi which.
        tuple3_text (if which = ''lat'' then ''38'' else ''077'')
          (if which = ''lat'' then ''54.00'' else ''01.80'')
          (if 0 \<le> ll then fst hemi else snd hemi)),
     barometer_mbar = (\<lambda>us baro.
        if us = Some 1 then Inr (fmul baro (dbl 3386389 100000))
        else Inl (OtherException ''unknown unit system''))\<rparr>"

text \<open>The packet of the example observation with these collaborators.\<close>

definition sample_packet_text :: string where
  "sample_packet_text = ''@151234z'' @ tuple3_text ''38'' ''54.00'' ''N''
     @ tuple3_text ''077'' ''01.80'' ''W'' @ ''_180/005g009t072r005p030P120b10132h55L450.DsVP''"

definition sample_record :: obs_record where
  "sample_record = [''dateTime'' \<mapsto> Some 1710506040, ''usUnits'' \<mapsto> Some 1,
     ''windDir'' \<mapsto> Some 180, ''windSpeed'' \<mapsto> Some 5, ''windGust'' \<mapsto> Some 9,
     ''outTemp'' \<mapsto> Some 72, ''rain'' \<mapsto> Some (dbl 5 100),
     ''rain24'' \<mapsto> Some (dbl 30 100), ''dailyrain'' \<mapsto> Some (dbl 120 100),
     ''barometer'' \<mapsto> Some (dbl 2992 100), ''outHumidity'' \<mapsto> Some 55,
     ''radiation'' \<mapsto> Some 450]"

definition metric_record :: obs_record where
  "metric_record = sample_record(''usUnits'' \<mapsto> Some 16)"

definition sample_archive :: "int \<Rightarrow> obs_record \<Rightarrow> archive" where
  "sample_archive stamp r = \<lparr>lastGoodStamp = Some stamp,
     record_at = (\<lambda>ts. if ts = stamp then Inr r
                          else Inl (OtherException ''no such record''))\<rparr>"

text \<open>
  An instance of \<^verbatim>\<open>APRS\<close> as the source has the class, and an instance of a subclass whose
  \<^verbatim>\<open>extractRecordFrom\<close> returns the record the archive stores.
\<close>

definition uploader :: "int option \<Rightarrow> APRS" where
  "uploader lp = \<lparr>config = station_config, lastpost = lp, extractRecordFrom = None\<rparr>"

definition subclass_uploader :: "int option \<Rightarrow> APRS" where
  "subclass_uploader lp = \<lparr>config = station_config, lastpost = lp,
     extractRecordFrom = Some (\<lambda>arch ts. record_at arch ts)\<rparr>"

text \<open>
  An observation with fractional and negative readings: wind speed 5.9, temperature
  \<open>-0.5\<close>, rain 0.29, whose product with 100 is the float just below 29.
\<close>

definition fractional_record :: obs_record where
  "fractional_record = sample_record(''windSpeed'' \<mapsto> Some (dbl 59 10),
     ''outTemp'' \<mapsto> Some (- (1 / 2)), ''rain'' \<mapsto> Some (dbl 29 100))"

definition good_device :: device where
  "good_device = (\<lambda>tr ev. None)"

definition conv_fails :: device where
  "conv_fails = (\<lambda>tr ev. if ev = Write (''conv'' @ CR)
                           then Some (SerialException ''write failed'') else None)"

section \<open>Settings validation\<close>

lemma validate_parity_cases:
  "validate_parity p = (if upper p \<in> VALID_PARITIES then Inr (upper p)
                        else Inl (ValueError ''Invalid parity value''))"
  by (simp add: validate_parity_def Let_def)

lemma post_init_ok:
  assumes "upper (parity c) \<in> VALID_PARITIES" "- 90 \<le> latitude c" "latitude c \<le> 90"
    "- 180 \<le> longitude c" "longitude c \<le> 180"
    "0 \<le> interval c" "0 \<le> stale c" "1 \<le> max_tries c"
  shows "post_init c = Inr (c\<lparr>station := upper (station c), parity := upper (parity c)\<rparr>)"
  using assms by (simp add: post_init_def validate_parity_cases Let_def)

lemma post_init_bad:
  assumes "upper (parity c) \<notin> VALID_PARITIES \<or> latitude c < - 90 \<or> 90 < latitude c
       \<or> longitude c < - 180 \<or> 180 < longitude c
       \<or> interval c < 0 \<or> stale c < 0 \<or> max_tries c < 1"
  shows "\<exists>m. post_init c = Inl (ValueError m)"
proof (cases "upper (parity c) \<in> VALID_PARITIES")
  case False
  then show ?thesis by (simp add: post_init_def validate_parity_cases Let_def)
next
  case True
  then have "post_init c =
    (if \<not> (- 90 \<le> latitude c \<and> latitude c \<le> 90)
       then Inl (ValueError ''Latitude must be between -90 and 90 degrees'')
     else if \<not> (- 180 \<le> longitude c \<and> longitude c \<le> 180)
       then Inl (ValueError ''Longitude must be between -180 and 180 degrees'')
     else if interval c < 0 then Inl (ValueError ''Interval cannot be negative'')
     else if stale c < 0 then Inl (ValueError ''Stale threshold cannot be negative'')
     else if max_tries c < 1 then Inl (ValueError ''Max tries must be at least 1'')
     else Inr (c\<lparr>station := upper (station c), parity := upper (parity c)\<rparr>))"
    by (simp add: post_init_def validate_parity_cases Let_def)
  with True assms show ?thesis
    by (simp split: if_splits)
qed

text \<open>
  C6. Constructing the settings fails, with a \<open>ValueError\<close> (the source's configuration
  error), exactly when the upper-cased parity is not one of N, E, O, M, S, or the latitude
  is outside \<open>[-90, 90]\<close>, or the longitude is outside \<open>[-180, 180]\<close>, or the interval
  or the stale threshold is negative, or \<open>max_tries\<close> is below 1. Otherwise it succeeds,
  the stored call sign is the upper-cased input, and every object that construction
  returns satisfies all the constraints.
\<close>

theorem post_init_validation:
  "((\<exists>e. post_init c = Inl e) \<longleftrightarrow>
      (upper (parity c) \<notin> VALID_PARITIES \<or> latitude c < - 90 \<or> 90 < latitude c
       \<or> longitude c < - 180 \<or> 180 < longitude c
       \<or> interval c < 0 \<or> stale c < 0 \<or> max_tries c < 1))
   \<and> (\<forall>e. post_init c = Inl e \<longrightarrow> (\<exists>m. e = ValueError m))
   \<and> (\<forall>c'. post_init c = Inr c' \<longrightarrow>
         station c' = upper (station c)
         \<and> parity c' \<in> VALID_PARITIES \<and> - 90 \<le> latitude c' \<and> latitude c' \<le> 90
         \<and> - 180 \<le> longitude c' \<and> longitude c' \<le> 180
         \<and> 0 \<le> interval c' \<and> 0 \<le> stale c' \<and> 1 \<le> max_tries c')"
proof (cases "upper (parity c) \<notin> VALID_PARITIES \<or> latitude c < - 90 \<or> 90 < latitude c
       \<or> longitude c < - 180 \<or> 180 < longitude c
       \<or> interval c < 0 \<or> stale c < 0 \<or> max_tries c < 1")
  case True
  from post_init_bad [OF True] obtain m where "post_init c = Inl (ValueError m)" ..
  with True show ?thesis by simp
next
  case False
  then have "post_init c = Inr (c\<lparr>station := upper (station c), parity := upper (parity c)\<rparr>)"
    by (intro post_init_ok) simp_all
  with False show ?thesis by auto
qed

theorem post_init_validation_witness:
  "post_init raw_config = Inr station_config
   \<and> station station_config = upper (station raw_config)
   \<and> parity station_config \<in> VALID_PARITIES
   \<and> (\<exists>m. post_init (raw_config\<lparr>parity := ''X''\<rparr>) = Inl (ValueError m))
   \<and> (\<exists>m. post_init (raw_config\<lparr>max_tries := 0\<rparr>) = Inl (ValueError m))"
proof -
  have ok: "post_init raw_config = Inr station_config"
    by code_simp
  have bad1: "upper (parity (raw_config\<lparr>parity := ''X''\<rparr>)) \<notin> VALID_PARITIES"
    by code_simp
  have bad2: "max_tries (raw_config\<lparr>max_tries := 0\<rparr>) < 1"
    by simp
  from post_init_validation [of raw_config] ok
  have "station station_config = upper (station raw_config)
        \<and> parity station_config \<in> VALID_PARITIES"
    by simp
  moreover from post_init_validation [of "raw_config\<lparr>parity := ''X''\<rparr>"] bad1
  have "\<exists>m. post_init (raw_config\<lparr>parity := ''X''\<rparr>) = Inl (ValueError m)"
    by blast
  moreover from post_init_validation [of "raw_config\<lparr>max_tries := 0\<rparr>"] bad2
  have "\<exists>m. post_init (raw_config\<lparr>max_tries := 0\<rparr>) = Inl (ValueError m)"
    by blast
  ultimately show ?thesis using ok by simp
qed

section \<open>The gate\<close>

lemma truthy_Some [simp]: "truthy (Some n) = (n \<noteq> 0)"
  by (simp add: truthy_def)

lemma gate_decision_sequence:
  "check_post_conditions self arch now time_ts =
     (if \<not> enabled (config self) then DISABLED
      else if lastGoodStamp arch \<noteq> Some time_ts then NON_LATEST
      else if of_int (stale (config self)) < how_old now time_ts then STALE
      else if \<exists>lp. lastpost self = Some lp \<and> lp \<noteq> 0 \<and> time_ts - lp < interval (config self)
        then INTERVAL_WAIT
      else SUCCESS)"
  by (cases "lastpost self") (auto simp: check_post_conditions_def)

lemma how_old_300: "how_old 300 300 = 0"
  by code_simp

text \<open>
  C2. The gate takes its rules in the order DISABLED, NON_LATEST, STALE, INTERVAL_WAIT,
  ELIGIBLE, but its interval rule tests the truth value of the last post timestamp: with
  the timestamp set to 0, a candidate 300 seconds later and an interval of 600 seconds
  the gate answers \<open>SUCCESS\<close>, where the timestamp 1 in its place gives
  \<open>INTERVAL_WAIT\<close>.
\<close>

theorem gate_interval_rule_at_zero:
  "lastpost (uploader (Some 0)) = Some 0
   \<and> 300 - 0 < interval (config (uploader (Some 0)))
   \<and> check_post_conditions (uploader (Some 0)) (sample_archive 300 sample_record) 300 300
       = SUCCESS
   \<and> check_post_conditions (uploader (Some 1)) (sample_archive 300 sample_record) 300 300
       = INTERVAL_WAIT"
  by (simp add: gate_decision_sequence how_old_300 uploader_def sample_archive_def
      station_config_def raw_config_def)

text \<open>
  C10. When the last post timestamp is 0, the gate is enabled, the candidate is the
  archive's latest timestamp and is not stale, the gate answers \<open>SUCCESS\<close> also when
  the candidate is less than the interval after 0.
\<close>

theorem gate_skips_interval_at_zero:
  assumes "enabled (config self)"
    and "lastGoodStamp arch = Some time_ts"
    and "\<not> how_old now time_ts > of_int (stale (config self))"
    and "lastpost self = Some 0"
    and "time_ts - 0 < interval (config self)"
  shows "check_post_conditions self arch now time_ts = SUCCESS"
  using assms by (simp add: check_post_conditions_def)

theorem gate_skips_interval_at_zero_witness:
  "enabled (config (uploader (Some 0)))
   \<and> lastGoodStamp (sample_archive 300 sample_record) = Some 300
   \<and> \<not> how_old 300 300 > of_int (stale (config (uploader (Some 0))))
   \<and> lastpost (uploader (Some 0)) = Some 0
   \<and> 300 - 0 < interval (config (uploader (Some 0)))
   \<and> check_post_conditions (uploader (Some 0)) (sample_archive 300 sample_record) 300 300
       = SUCCESS"
proof -
  have h: "enabled (config (uploader (Some 0)))"
    "lastGoodStamp (sample_archive 300 sample_record) = Some 300"
    "\<not> how_old 300 300 > of_int (stale (config (uploader (Some 0))))"
    "lastpost (uploader (Some 0)) = Some 0"
    "300 - 0 < interval (config (uploader (Some 0)))"
    by (simp_all add: how_old_300 uploader_def sample_archive_def station_config_def
        raw_config_def)
  from gate_skips_interval_at_zero [OF h] h show ?thesis
    by simp
qed

section \<open>Rejected posts\<close>

lemma postData_gate_rejects:
  "check_post_conditions self arch now time_ts \<noteq> SUCCESS \<Longrightarrow>
   postData ext dev self arch now time_ts tr = (Some raise_str, self, tr)"
  by (simp add: postData_def)

lemma postData_missing_method:
  "check_post_conditions self arch now time_ts = SUCCESS \<Longrightarrow>
   extractRecordFrom self = None \<Longrightarrow>
   postData ext dev self arch now time_ts tr = (Some missing_method, self, tr)"
  by (simp add: postData_def)

lemma postData_units_reject:
  "check_post_conditions self arch now time_ts = SUCCESS \<Longrightarrow>
   extractRecordFrom self = Some f \<Longrightarrow>
   f arch time_ts = Inr r \<Longrightarrow> r ''usUnits'' = Some us \<Longrightarrow>
   us \<noteq> Some (weewx_US ext) \<Longrightarrow>
   postData ext dev self arch now time_ts tr = (Some raise_str, self, tr)"
  by (simp add: postData_def rec_item_def)

lemma how_old_half: "how_old (dbl 17105060405 10) 1710506040 = 1 / 2"
  by code_simp

lemma how_old_hour: "how_old (dbl 17105096405 10) 1710506040 = 7201 / 2"
  by code_simp

lemma gate_sample:
  "check_post_conditions (uploader None) (sample_archive 1710506040 r)
    (dbl 17105060405 10) 1710506040 = SUCCESS"
  "check_post_conditions (subclass_uploader None) (sample_archive 1710506040 r)
    (dbl 17105060405 10) 1710506040 = SUCCESS"
  by (simp_all add: gate_decision_sequence how_old_half uploader_def subclass_uploader_def
      sample_archive_def station_config_def raw_config_def)

text \<open>
  C3. A record in the metric unit system (tag 16, where \<^verbatim>\<open>weewx.US\<close> is 1) at a call
  that passes the gate. An instance of \<^verbatim>\<open>APRS\<close> raises \<open>AttributeError\<close> at
  \<^verbatim>\<open>self.extractRecordFrom\<close>, which the class does not define; an instance of a subclass
  that supplies the method goes on to \<^verbatim>\<open>raise "APRS: Units must be US Customary."\<close>,
  which is a \<open>TypeError\<close> in Python 3. Neither is a units error; in both cases nothing
  is written to the port and the last post timestamp stays unset.
\<close>

theorem postData_metric_record:
  "metric_record ''usUnits'' = Some (Some 16) \<and> weewx_US sample_ext = 1
   \<and> postData sample_ext good_device (uploader None) (sample_archive 1710506040 metric_record)
        (dbl 17105060405 10) 1710506040 []
      = (Some (AttributeError ([CHR 0x27] @ ''APRS'' @ [CHR 0x27] @ '' object has no attribute ''
                 @ [CHR 0x27] @ ''extractRecordFrom'' @ [CHR 0x27])), uploader None, [])
   \<and> postData sample_ext good_device (subclass_uploader None)
        (sample_archive 1710506040 metric_record) (dbl 17105060405 10) 1710506040 []
      = (Some (TypeError ''exceptions must derive from BaseException''),
         subclass_uploader None, [])"
proof -
  have u: "metric_record ''usUnits'' = Some (Some 16)"
    by (simp add: metric_record_def)
  have w: "weewx_US sample_ext = 1"
    by (simp add: sample_ext_def)
  have n: "extractRecordFrom (uploader None) = None"
    by (simp add: uploader_def)
  have f: "extractRecordFrom (subclass_uploader None) = Some (\<lambda>arch ts. record_at arch ts)"
    by (simp add: subclass_uploader_def)
  have r: "record_at (sample_archive 1710506040 metric_record) 1710506040 = Inr metric_record"
    by (simp add: sample_archive_def)
  have ne: "Some (16 :: rat) \<noteq> Some (weewx_US sample_ext)"
    by (simp add: w)
  from postData_missing_method [OF gate_sample(1) n]
    postData_units_reject [OF gate_sample(2) f r u ne]
  show ?thesis using u w
    by (simp add: raise_str_def missing_method_def)
qed

text \<open>
  C4. A disabled uploader and a stale candidate are two different rejections of the gate,
  and \<^verbatim>\<open>postData\<close> answers both with the same \<open>TypeError\<close>, the one Python 3 raises
  for \<^verbatim>\<open>raise "APRS: {status.value}"\<close>; the object and the trace are unchanged.
\<close>

theorem postData_rejections_alike:
  "check_post_conditions (uploader None\<lparr>config := station_config\<lparr>enabled := False\<rparr>\<rparr>)
      (sample_archive 1710506040 sample_record) (dbl 17105060405 10) 1710506040 = DISABLED
   \<and> check_post_conditions (uploader None) (sample_archive 1710506040 sample_record)
      (dbl 17105096405 10) 1710506040 = STALE
   \<and> postData sample_ext good_device (uploader None\<lparr>config := station_config\<lparr>enabled := False\<rparr>\<rparr>)
        (sample_archive 1710506040 sample_record) (dbl 17105060405 10) 1710506040 []
      = (Some (TypeError ''exceptions must derive from BaseException''),
         uploader None\<lparr>config := station_config\<lparr>enabled := False\<rparr>\<rparr>, [])
   \<and> postData sample_ext good_device (uploader None)
        (sample_archive 1710506040 sample_record) (dbl 17105096405 10) 1710506040 []
      = (Some (TypeError ''exceptions must derive from BaseException''), uploader None, [])"
proof -
  have d: "check_post_conditions (uploader None\<lparr>config := station_config\<lparr>enabled := False\<rparr>\<rparr>)
      (sample_archive 1710506040 sample_record) (dbl 17105060405 10) 1710506040 = DISABLED"
    by (simp add: gate_decision_sequence)
  have s: "check_post_conditions (uploader None) (sample_archive 1710506040 sample_record)
      (dbl 17105096405 10) 1710506040 = STALE"
    by (simp add: gate_decision_sequence how_old_hour uploader_def sample_archive_def
        station_config_def raw_config_def)
  show ?thesis
    by (simp add: d s postData_gate_rejects raise_str_def)
qed

section \<open>Exact float operations\<close>


lemma two_powi_pos [simp]: "0 < (2::rat) powi n"
  by (simp add: power_int_def)








section \<open>Number formatting\<close>

lemma digit_char_0: "digit_char 0 = CHR ''0''"
  by code_simp

lemma dec_digits_1: "n < 10 \<Longrightarrow> dec_digits n = [digit_char n]"
  by (simp add: dec_digits.simps)

lemma dec_digits_2:
  "10 \<le> n \<Longrightarrow> n < 100 \<Longrightarrow> dec_digits n = [digit_char (n div 10), digit_char (n mod 10)]"
  by (subst dec_digits.simps) (simp add: dec_digits_1)

lemma dec_digits_3:
  assumes "100 \<le> n" and "n < 1000"
  shows "dec_digits n = [digit_char (n div 100), digit_char (n div 10 mod 10), digit_char (n mod 10)]"
proof -
  have "10 \<le> n div 10" and "n div 10 < 100" using assms by simp_all
  then have "dec_digits (n div 10) = [digit_char (n div 10 div 10), digit_char (n div 10 mod 10)]"
    by (rule dec_digits_2)
  moreover have "n div 10 div 10 = n div 100"
    by (simp add: div_mult2_eq [symmetric])
  ultimately show ?thesis
    using assms by (subst dec_digits.simps) simp
qed


lemma fmt_d_3_digits:
  assumes "0 \<le> n" and "n < 1000"
  shows "fmt_d 3 n = [digit_char (n div 100), digit_char (n div 10 mod 10), digit_char (n mod 10)]"
proof -
  consider "n < 10" | "10 \<le> n" "n < 100" | "100 \<le> n" by linarith
  then show ?thesis
  proof cases
    case 1
    with assms show ?thesis
      by (simp add: fmt_d_def zfill_def dec_digits_1 digit_char_0 numeral_3_eq_3)
  next
    case 2
    with assms show ?thesis
      by (simp add: fmt_d_def zfill_def dec_digits_2 digit_char_0 numeral_3_eq_3)
  next
    case 3
    with assms show ?thesis
      by (simp add: fmt_d_def zfill_def dec_digits_3)
  qed
qed


lemma py_int_truncates:
  "\<bar>of_int (py_int q) :: rat\<bar> \<le> \<bar>q\<bar> \<and> \<bar>q - of_int (py_int q)\<bar> < 1"
proof (cases "0 \<le> q")
  case True
  then show ?thesis
    by (simp add: py_int_def) linarith
next
  case False
  then have "q < 0" by simp
  then have "\<lceil>q\<rceil> \<le> 0" by (simp add: ceiling_le_iff)
  then have "(of_int \<lceil>q\<rceil> :: rat) \<le> 0" by simp
  with False show ?thesis
    by (simp add: py_int_def) linarith
qed

section \<open>Humidity and radiation blocks\<close>






section \<open>The encoder's integer fields\<close>

lemma py_int_toward_zero: "py_int q = toward_zero q"
  by (simp add: py_int_def toward_zero_def ceiling_def not_le)

lemma toward_zero_truncates:
  "\<bar>of_int (toward_zero x) :: rat\<bar> \<le> \<bar>x\<bar> \<and> \<bar>x - of_int (toward_zero x)\<bar> < 1"
  using py_int_truncates [of x] by (simp add: py_int_toward_zero)

lemma int_field_digits3:
  assumes "0 \<le> x" and "x < 1000"
  shows "int_field 3 (Some x) = digits3 \<lfloor>x\<rfloor>"
proof -
  have "0 \<le> \<lfloor>x\<rfloor>" "\<lfloor>x\<rfloor> < 1000" using assms by (simp_all add: floor_less_iff)
  then have "fmt_d 3 \<lfloor>x\<rfloor> = digits3 \<lfloor>x\<rfloor>"
    unfolding digits3_def by (rule fmt_d_3_digits)
  with assms show ?thesis by (simp add: int_field_def toward_zero_def)
qed

lemma int_field_small_negative:
  assumes "- 1 < x" and "x < 0"
  shows "int_field 3 (Some x) = ''000''"
proof -
  have "\<lfloor>- x\<rfloor> = 0" using assms by (simp add: floor_eq_iff)
  then have "toward_zero x = 0" using assms by (simp add: toward_zero_def)
  moreover have "fmt_d 3 0 = ''000''" by code_simp
  ultimately show ?thesis by (simp add: int_field_def)
qed

lemma format_wind_temp_fields:
  "format_wind_temp r = ''_'' @ int_field 3 (rec_get r ''windDir'')
     @ ''/'' @ int_field 3 (rec_get r ''windSpeed'')
     @ ''g'' @ int_field 3 (rec_get r ''windGust'')
     @ ''t'' @ int_field 3 (rec_get r ''outTemp'')"
  by (simp add: format_wind_temp_def int_field_def py_int_toward_zero numeral_3_eq_3
      split: option.splits)

lemma format_rain_fields:
  "format_rain r = ''r'' @ int_field 3 (map_option (\<lambda>v. fmul v 100) (rec_get r ''rain''))
     @ ''p'' @ int_field 3 (map_option (\<lambda>v. fmul v 100) (rec_get r ''rain24''))
     @ ''P'' @ int_field 3 (map_option (\<lambda>v. fmul v 100) (rec_get r ''dailyrain''))"
  by (simp add: format_rain_def int_field_def py_int_toward_zero numeral_3_eq_3
      split: option.splits)

lemma format_barometer_field:
  "rec_get r ''barometer'' = Some b \<Longrightarrow> r ''usUnits'' = Some us \<Longrightarrow>
   barometer_mbar ext us b = Inr m \<Longrightarrow>
   format_barometer ext r = Inr (''b'' @ int_field 5 (Some (fmul m 10)))"
  by (simp add: format_barometer_def rec_item_def int_field_def py_int_toward_zero)

lemma format_humidity_field:
  "rec_get r ''outHumidity'' = Some h \<Longrightarrow> h < 100 \<Longrightarrow>
   format_humidity r = ''h'' @ int_field 2 (Some h)"
  by (simp add: format_humidity_def int_field_def py_int_toward_zero)

lemma format_radiation_field:
  "rec_get r ''radiation'' = Some x \<Longrightarrow> x < 1000 \<Longrightarrow>
   format_radiation r = ''L'' @ int_field 3 (Some x)"
  by (simp add: format_radiation_def int_field_def py_int_toward_zero)

section \<open>The encoder on the example observation\<close>

lemma example_fields:
  "fmt_d 3 (py_int 180) = ''180''" "fmt_d 3 (py_int 5) = ''005''"
  "fmt_d 3 (py_int 9) = ''009''" "fmt_d 3 (py_int 72) = ''072''"
  "fmt_d 2 (py_int 55) = ''55''" "fmt_d 3 (py_int 450) = ''450''"
  by code_simp+

lemma example_rain:
  "fmt_d 3 (py_int (fmul (dbl 5 100) 100)) = ''005''"
  "fmt_d 3 (py_int (fmul (dbl 30 100) 100)) = ''030''"
  "fmt_d 3 (py_int (fmul (dbl 120 100) 100)) = ''120''"
  by code_simp+

lemma example_barometer:
  "fmt_d 5 (py_int (fmul (fmul (dbl 2992 100) (dbl 3386389 100000)) 10)) = ''10132''"
  by code_simp

lemma format_weather_data_blocks:
  assumes "r ''dateTime'' = Some (Some 1710506040)"
    and "rec_get r ''windDir'' = Some 180" and "rec_get r ''windSpeed'' = Some 5"
    and "rec_get r ''windGust'' = Some 9" and "rec_get r ''outTemp'' = Some 72"
    and "rec_get r ''rain'' = Some (dbl 5 100)" and "rec_get r ''rain24'' = Some (dbl 30 100)"
    and "rec_get r ''dailyrain'' = Some (dbl 120 100)"
    and "rec_get r ''outHumidity'' = Some 55" and "rec_get r ''radiation'' = Some 450"
    and "rec_get r ''barometer'' = Some b" and "r ''usUnits'' = Some us"
    and "barometer_mbar ext us b = Inr m"
  shows "format_weather_data ext c r =
           Inr (strftime_gmtime ext ''@%d%H%Mz'' (Some 1710506040)
                @ (latlon_string ext (latitude c) (''N'', ''S'') ''lat''
                   @ latlon_string ext (longitude c) (''E'', ''W'') ''lon'')
                @ ''_180/005g009t072''
                @ ''r005p030P120''
                @ (''b'' @ fmt_d 5 (py_int (fmul m 10)))
                @ ''h55''
                @ ''L450''
                @ (if hardware c = ''VantagePro'' then ''.DsVP'' else ''.Unkn''))"
proof -
  have wt: "format_wind_temp r = ''_180/005g009t072''"
    using assms(2-5) by (simp add: format_wind_temp_def example_fields)
  have rn: "format_rain r = ''r005p030P120''"
    using assms(6-8) by (simp add: format_rain_def example_rain)
  have ba: "format_barometer ext r = Inr (''b'' @ fmt_d 5 (py_int (fmul m 10)))"
    using assms(11-13) by (simp add: format_barometer_def rec_item_def)
  have hu: "format_humidity r = ''h55''"
    using assms(9) by (simp add: format_humidity_def example_fields)
  have ra: "format_radiation r = ''L450''"
    using assms(10) by (simp add: format_radiation_def example_fields)
  have dt: "rec_item r ''dateTime'' = Inr (Some 1710506040)"
    using assms(1) by (simp add: rec_item_def)
  show ?thesis
    unfolding format_weather_data_def dt wt rn ba hu ra by (simp add: Let_def)
qed

text \<open>
  C1. For a record with windDir 180, windSpeed 5, windGust 9, outTemp 72, rain 0.05,
  rain24 0.30, dailyrain 1.20, outHumidity 55, radiation 450, dateTime 1710506040
  (2024-03-15T12:34:00Z) and a barometer reading, the packet is the timestamp, the
  position, \<open>_180/005g009t072\<close>, \<open>r005p030P120\<close>, the barometer block, \<open>h55\<close>, \<open>L450\<close>
  and the hardware suffix, in this order. In every record, each field of the wind and
  temperature block is the reading truncated toward zero, each field of the rain block
  the float product of the reading and 100 truncated toward zero, and the barometer,
  humidity and radiation blocks hold their value truncated toward zero: a value from 0 up
  to 1000 gives the three digits of its floor, a value between \<open>-1\<close> and 0 gives
  \<open>000\<close>.
\<close>

theorem format_weather_data_example:
  assumes "r ''dateTime'' = Some (Some 1710506040)"
    and "rec_get r ''windDir'' = Some 180" and "rec_get r ''windSpeed'' = Some 5"
    and "rec_get r ''windGust'' = Some 9" and "rec_get r ''outTemp'' = Some 72"
    and "rec_get r ''rain'' = Some (dbl 5 100)" and "rec_get r ''rain24'' = Some (dbl 30 100)"
    and "rec_get r ''dailyrain'' = Some (dbl 120 100)"
    and "rec_get r ''outHumidity'' = Some 55" and "rec_get r ''radiation'' = Some 450"
    and "rec_get r ''barometer'' = Some b" and "r ''usUnits'' = Some us"
    and "barometer_mbar ext us b = Inr m"
  shows "format_weather_data ext c r =
           Inr (strftime_gmtime ext ''@%d%H%Mz'' (Some 1710506040)
                @ (latlon_string ext (latitude c) (''N'', ''S'') ''lat''
                   @ latlon_string ext (longitude c) (''E'', ''W'') ''lon'')
                @ ''_180/005g009t072''
                @ ''r005p030P120''
                @ (''b'' @ int_field 5 (Some (fmul m 10)))
                @ ''h55''
                @ ''L450''
                @ (if hardware c = ''VantagePro'' then ''.DsVP'' else ''.Unkn''))
         \<and> format_wind_temp r' = ''_'' @ int_field 3 (rec_get r' ''windDir'')
              @ ''/'' @ int_field 3 (rec_get r' ''windSpeed'')
              @ ''g'' @ int_field 3 (rec_get r' ''windGust'')
              @ ''t'' @ int_field 3 (rec_get r' ''outTemp'')
         \<and> format_rain r' =
              ''r'' @ int_field 3 (map_option (\<lambda>v. fmul v 100) (rec_get r' ''rain''))
              @ ''p'' @ int_field 3 (map_option (\<lambda>v. fmul v 100) (rec_get r' ''rain24''))
              @ ''P'' @ int_field 3 (map_option (\<lambda>v. fmul v 100) (rec_get r' ''dailyrain''))
         \<and> (rec_get r' ''barometer'' = Some b' \<and> r' ''usUnits'' = Some us'
              \<and> barometer_mbar ext us' b' = Inr m' \<longrightarrow>
              format_barometer ext r' = Inr (''b'' @ int_field 5 (Some (fmul m' 10))))
         \<and> (rec_get r' ''outHumidity'' = Some x \<and> x < 100 \<longrightarrow>
              format_humidity r' = ''h'' @ int_field 2 (Some x))
         \<and> (rec_get r' ''radiation'' = Some x \<and> x < 1000 \<longrightarrow>
              format_radiation r' = ''L'' @ int_field 3 (Some x))
         \<and> (0 \<le> x \<and> x < 1000 \<longrightarrow> int_field 3 (Some x) = digits3 \<lfloor>x\<rfloor>)
         \<and> (- 1 < x \<and> x < 0 \<longrightarrow> int_field 3 (Some x) = ''000'')
         \<and> \<bar>of_int (toward_zero x) :: rat\<bar> \<le> \<bar>x\<bar> \<and> \<bar>x - of_int (toward_zero x)\<bar> < 1"
proof -
  have "format_weather_data ext c r =
           Inr (strftime_gmtime ext ''@%d%H%Mz'' (Some 1710506040)
                @ (latlon_string ext (latitude c) (''N'', ''S'') ''lat''
                   @ latlon_string ext (longitude c) (''E'', ''W'') ''lon'')
                @ ''_180/005g009t072''
                @ ''r005p030P120''
                @ (''b'' @ int_field 5 (Some (fmul m 10)))
                @ ''h55''
                @ ''L450''
                @ (if hardware c = ''VantagePro'' then ''.DsVP'' else ''.Unkn''))"
    using format_weather_data_blocks [OF assms, of c]
    by (simp add: int_field_def py_int_toward_zero)
  then show ?thesis
    using format_wind_temp_fields [of r'] format_rain_fields [of r']
      format_barometer_field [of r' b' us' ext m'] format_humidity_field [of r' x]
      format_radiation_field [of r' x] int_field_digits3 [of x]
      int_field_small_negative [of x] toward_zero_truncates [of x]
    by blast
qed

lemma sample_record_fields:
  "sample_record ''dateTime'' = Some (Some 1710506040)"
  "rec_get sample_record ''windDir'' = Some 180" "rec_get sample_record ''windSpeed'' = Some 5"
  "rec_get sample_record ''windGust'' = Some 9" "rec_get sample_record ''outTemp'' = Some 72"
  "rec_get sample_record ''rain'' = Some (dbl 5 100)"
  "rec_get sample_record ''rain24'' = Some (dbl 30 100)"
  "rec_get sample_record ''dailyrain'' = Some (dbl 120 100)"
  "rec_get sample_record ''outHumidity'' = Some 55"
  "rec_get sample_record ''radiation'' = Some 450"
  "rec_get sample_record ''barometer'' = Some (dbl 2992 100)"
  "sample_record ''usUnits'' = Some (Some 1)"
  by (simp_all add: sample_record_def rec_get_def)

lemma fractional_record_fields:
  "rec_get fractional_record ''windDir'' = Some 180"
  "rec_get fractional_record ''windSpeed'' = Some (dbl 59 10)"
  "rec_get fractional_record ''windGust'' = Some 9"
  "rec_get fractional_record ''outTemp'' = Some (- (1 / 2))"
  "rec_get fractional_record ''rain'' = Some (dbl 29 100)"
  "rec_get fractional_record ''rain24'' = Some (dbl 30 100)"
  "rec_get fractional_record ''dailyrain'' = Some (dbl 120 100)"
  by (simp_all add: fractional_record_def sample_record_def rec_get_def)

lemma fractional_fields:
  "int_field 3 (Some 180) = ''180''" "int_field 3 (Some (dbl 59 10)) = ''005''"
  "int_field 3 (Some 9) = ''009''" "int_field 3 (Some (- (1 / 2))) = ''000''"
  "int_field 3 (Some (fmul (dbl 29 100) 100)) = ''028''"
  "int_field 3 (Some (fmul (dbl 30 100) 100)) = ''030''"
  "int_field 3 (Some (fmul (dbl 120 100) 100)) = ''120''"
  "int_field 5 (Some (fmul (fmul (dbl 2992 100) (dbl 3386389 100000)) 10)) = ''10132''"
  by code_simp+

lemma sample_barometer_mbar:
  "barometer_mbar sample_ext (Some 1) (dbl 2992 100)
     = Inr (fmul (dbl 2992 100) (dbl 3386389 100000))"
  by (simp add: sample_ext_def)

lemma sample_position:
  "latlon_string sample_ext (latitude station_config) (''N'', ''S'') ''lat''
     = tuple3_text ''38'' ''54.00'' ''N''"
  "latlon_string sample_ext (longitude station_config) (''E'', ''W'') ''lon''
     = tuple3_text ''077'' ''01.80'' ''W''"
  by code_simp+

lemma sample_timestamp:
  "strftime_gmtime sample_ext ''@%d%H%Mz'' (Some 1710506040) = ''@151234z''"
  by (simp add: sample_ext_def)

lemma sample_hardware: "hardware station_config = ''VantagePro''"
  by (simp add: station_config_def raw_config_def)

lemma sample_packet:
  "format_weather_data sample_ext station_config sample_record = Inr sample_packet_text"
  using format_weather_data_blocks [OF sample_record_fields sample_barometer_mbar,
      of station_config]
  by (simp add: sample_position sample_timestamp sample_hardware example_barometer
      sample_packet_text_def)

theorem format_weather_data_example_witness:
  "format_weather_data sample_ext station_config sample_record
     = Inr (''@151234z'' @ tuple3_text ''38'' ''54.00'' ''N'' @ tuple3_text ''077'' ''01.80'' ''W''
            @ ''_180/005g009t072r005p030P120b10132h55L450.DsVP'')
   \<and> format_wind_temp fractional_record = ''_180/005g009t000''
   \<and> format_rain fractional_record = ''r028p030P120''
   \<and> int_field 3 (Some (999 / 2)) = ''499''
   \<and> int_field 3 (Some (- (1 / 2))) = ''000''"
proof -
  note t = format_weather_data_example [OF sample_record_fields sample_barometer_mbar,
      of station_config fractional_record 0 None 0]
  have d: "digits3 \<lfloor>999 / 2 :: rat\<rfloor> = ''499''"
    by code_simp
  from t [of 0]
  have 1: "format_weather_data sample_ext station_config sample_record
     = Inr (''@151234z'' @ tuple3_text ''38'' ''54.00'' ''N'' @ tuple3_text ''077'' ''01.80'' ''W''
            @ ''_180/005g009t072r005p030P120b10132h55L450.DsVP'')"
    by (simp add: sample_position sample_timestamp sample_hardware fractional_fields)
  from t [of 0]
  have 2: "format_wind_temp fractional_record = ''_180/005g009t000''"
    by (simp add: fractional_record_fields fractional_fields)
  from t [of 0]
  have 3: "format_rain fractional_record = ''r028p030P120''"
    by (simp add: fractional_record_fields fractional_fields)
  from t [of "999 / 2"]
  have 4: "int_field 3 (Some (999 / 2)) = ''499''"
    by (simp add: d)
  from t [of "- (1 / 2)"]
  have 5: "int_field 3 (Some (- (1 / 2))) = ''000''"
    by simp
  from 1 2 3 4 5 show ?thesis by simp
qed

section \<open>The transmission\<close>

lemma send_loop_trace:
  "send_loop dev cs tr = (res, tr') \<Longrightarrow>
     \<exists>es. tr' = tr @ es \<and> prefix es (script_events cs)
        \<and> (res = None \<longrightarrow> es = script_events cs)
        \<and> (res \<noteq> None \<longrightarrow> length es < length (script_events cs))"
proof (induction cs arbitrary: tr)
  case Nil
  then show ?case by simp
next
  case (Cons a cs)
  obtain cmd delay where a: "a = (cmd, delay)" by (cases a)
  show ?case
  proof (cases "dev tr (Write cmd)")
    case (Some e)
    with Cons.prems a have "res = Some e" "tr' = tr"
      by (simp_all add: call_def)
    then show ?thesis by (simp add: a)
  next
    case None
    define sl where "sl = (if delay \<noteq> 0 then [Sleep delay] else [])"
    from Cons.prems a None have "send_loop dev cs (tr @ Write cmd # sl) = (res, tr')"
      by (simp add: call_def sl_def split: if_splits)
    from Cons.IH [OF this] obtain es where es: "tr' = (tr @ Write cmd # sl) @ es"
      "prefix es (script_events cs)" "res = None \<longrightarrow> es = script_events cs"
      "res \<noteq> None \<longrightarrow> length es < length (script_events cs)"
      by blast
    have "tr' = tr @ (Write cmd # sl @ es)" using es(1) by simp
    moreover have "prefix (Write cmd # sl @ es) (script_events (a # cs))"
      using es(2) by (simp add: a sl_def)
    moreover have "res = None \<longrightarrow> Write cmd # sl @ es = script_events (a # cs)"
      using es(3) by (simp add: a sl_def)
    moreover have "res \<noteq> None \<longrightarrow>
        length (Write cmd # sl @ es) < length (script_events (a # cs))"
      using es(4) by (simp add: a sl_def)
    ultimately show ?thesis by blast
  qed
qed

lemma send_loop_good:
  "\<forall>t ev. dev t ev = None \<Longrightarrow> send_loop dev cs tr = (None, tr @ script_events cs)"
  by (induction cs arbitrary: tr) (auto simp: call_def)

lemma script_events_commands:
  "[FlushOutput, FlushInput] @ script_events (commands c packet) = tnc_script c packet"
  by (simp add: commands_def tnc_script_def CR_def CTRL_C_def)

lemma send_tnc_commands_trace:
  assumes "send_tnc_commands c dev packet tr = (res, tr')"
  shows "\<exists>es. tr' = tr @ es \<and> prefix es (script_events (commands c packet))
            \<and> (res = None \<longrightarrow> es = script_events (commands c packet))
            \<and> (res \<noteq> None \<longrightarrow> length es < length (script_events (commands c packet)))"
proof -
  obtain res0 where l: "send_loop dev (commands c packet) tr = (res0, tr')"
    and r: "res = None \<longleftrightarrow> res0 = None"
    using assms
    by (cases "send_loop dev (commands c packet) tr")
      (auto simp: send_tnc_commands_def split: option.splits py_exn.splits)
  from send_loop_trace [OF l] r show ?thesis by auto
qed

lemma send_tnc_commands_good:
  "\<forall>t ev. dev t ev = None \<Longrightarrow>
   send_tnc_commands c dev packet tr = (None, tr @ script_events (commands c packet))"
  by (simp add: send_tnc_commands_def send_loop_good)

lemma session_body_trace:
  assumes "session_body c dev packet tr = (res, tr')"
  shows "\<exists>es. tr' = tr @ es \<and> prefix es (tnc_script c packet)
            \<and> (res = None \<longleftrightarrow> es = tnc_script c packet)"
proof (cases "dev tr FlushOutput")
  case (Some e)
  with assms have "res = Some e" "tr' = tr"
    by (simp_all add: session_body_def call_def)
  then show ?thesis by (simp add: tnc_script_def)
next
  case out: None
  show ?thesis
  proof (cases "dev (tr @ [FlushOutput]) FlushInput")
    case (Some e)
    with assms out have "res = Some e" "tr' = tr @ [FlushOutput]"
      by (simp_all add: session_body_def call_def)
    then show ?thesis by (simp add: tnc_script_def)
  next
    case None
    with assms out
    have "send_tnc_commands c dev packet (tr @ [FlushOutput, FlushInput]) = (res, tr')"
      by (simp add: session_body_def call_def)
    from send_tnc_commands_trace [OF this] obtain es
      where es: "tr' = (tr @ [FlushOutput, FlushInput]) @ es"
        "prefix es (script_events (commands c packet))"
        "res = None \<longrightarrow> es = script_events (commands c packet)"
        "res \<noteq> None \<longrightarrow> length es < length (script_events (commands c packet))"
      by blast
    have "tr' = tr @ ([FlushOutput, FlushInput] @ es)" using es(1) by simp
    moreover have "prefix ([FlushOutput, FlushInput] @ es) (tnc_script c packet)"
      using es(2) unfolding script_events_commands [symmetric] by simp
    moreover have "res = None \<longleftrightarrow> [FlushOutput, FlushInput] @ es = tnc_script c packet"
      using es(3,4) unfolding script_events_commands [symmetric] by auto
    ultimately show ?thesis by blast
  qed
qed

lemma session_body_good:
  "\<forall>t ev. dev t ev = None \<Longrightarrow>
   session_body c dev packet tr = (None, tr @ tnc_script c packet)"
  by (simp add: session_body_def call_def send_tnc_commands_good
      script_events_commands [symmetric])

lemma serial_session_trace:
  assumes "serial_session c dev packet tr = (res, tr')"
  shows "(res \<noteq> None \<and> tr' = tr)
         \<or> (\<exists>es. tr' = tr @ [serial_open c] @ es @ [Close] \<and> prefix es (tnc_script c packet)
               \<and> (res = None \<longleftrightarrow> es = tnc_script c packet))"
proof (cases "dev tr (serial_open c)")
  case (Some e)
  with assms have "res = Some e" "tr' = tr"
    by (simp_all add: serial_session_def call_def)
  then show ?thesis by simp
next
  case None
  obtain tr1 where b: "session_body c dev packet (tr @ [serial_open c]) = (res, tr1)"
    and t: "tr' = tr1 @ [Close]"
    using assms None
    by (cases "session_body c dev packet (tr @ [serial_open c])")
      (simp add: serial_session_def call_def)
  from session_body_trace [OF b] t show ?thesis by auto
qed

lemma serial_session_good:
  "\<forall>t ev. dev t ev = None \<Longrightarrow>
   serial_session c dev packet tr = (None, tr @ [serial_open c] @ tnc_script c packet @ [Close])"
  by (simp add: serial_session_def call_def session_body_good)

lemma transmit_cases:
  assumes "transmit self dev packet time_ts tr = (res, self', tr')"
  shows "\<exists>sres. serial_session (config self) dev packet tr = (sres, tr')
         \<and> ((sres = None \<and> res = None \<and> self' = self\<lparr>lastpost := Some time_ts\<rparr>)
            \<or> (sres \<noteq> None \<and> (\<exists>m. res = Some (APRSError m)) \<and> self' = self))"
proof -
  obtain sres tr1 where s: "serial_session (config self) dev packet tr = (sres, tr1)"
    by (cases "serial_session (config self) dev packet tr")
  from assms s
  have "(sres = None \<and> res = None \<and> self' = self\<lparr>lastpost := Some time_ts\<rparr> \<and> tr' = tr1)
      \<or> (sres \<noteq> None \<and> (\<exists>m. res = Some (APRSError m)) \<and> self' = self \<and> tr' = tr1)"
    by (cases sres) (auto simp: transmit_def split: py_exn.splits)
  with s show ?thesis by auto
qed

lemma transmit_good:
  "\<forall>t ev. dev t ev = None \<Longrightarrow>
   transmit self dev packet time_ts tr
     = (None, self\<lparr>lastpost := Some time_ts\<rparr>,
        tr @ [serial_open (config self)] @ tnc_script (config self) packet @ [Close])"
  by (simp add: transmit_def serial_session_good)

lemma transmit_outcome:
  assumes "transmit self dev packet time_ts tr = (res, self', tr')"
  shows "(res = None \<longrightarrow>
            self' = self\<lparr>lastpost := Some time_ts\<rparr>
          \<and> tr' = tr @ [serial_open (config self)] @ tnc_script (config self) packet @ [Close])
       \<and> (res \<noteq> None \<longrightarrow>
            self' = self \<and> (\<exists>m. res = Some (APRSError m))
          \<and> tr' \<noteq> tr @ [serial_open (config self)] @ tnc_script (config self) packet @ [Close])"
proof -
  from transmit_cases [OF assms] obtain sres
    where s: "serial_session (config self) dev packet tr = (sres, tr')"
      and d: "(sres = None \<and> res = None \<and> self' = self\<lparr>lastpost := Some time_ts\<rparr>)
            \<or> (sres \<noteq> None \<and> (\<exists>m. res = Some (APRSError m)) \<and> self' = self)"
    by blast
  from serial_session_trace [OF s] d show ?thesis by auto
qed

lemma postData_reaches:
  assumes "postData ext dev self arch now time_ts tr = (res, self', tr')"
  shows "(res \<noteq> None \<and> self' = self \<and> tr' = tr)
     \<or> (\<exists>f r packet. extractRecordFrom self = Some f \<and> f arch time_ts = Inr r
           \<and> format_weather_data ext (config self) r = Inr packet
           \<and> transmit self dev packet time_ts tr = (res, self', tr'))"
  using assms
  by (auto simp: postData_def Let_def split: if_splits option.splits sum.splits)

lemma postData_posts:
  assumes "check_post_conditions self arch now time_ts = SUCCESS"
    and "extractRecordFrom self = Some f" and "f arch time_ts = Inr r"
    and "r ''usUnits'' = Some (Some (weewx_US ext))"
    and "format_weather_data ext (config self) r = Inr packet"
  shows "postData ext dev self arch now time_ts tr = transmit self dev packet time_ts tr"
  using assms by (simp add: postData_def rec_item_def)

lemma writes_append: "writes (t @ es) = writes t @ writes es"
  by (induction t rule: writes.induct) simp_all

lemma uploader_simps:
  "config (uploader lp) = station_config"
  "lastpost (uploader lp) = lp"
  "extractRecordFrom (uploader lp) = None"
  "uploader lp\<lparr>lastpost := lp'\<rparr> = uploader lp'"
  "config (subclass_uploader lp) = station_config"
  "lastpost (subclass_uploader lp) = lp"
  "extractRecordFrom (subclass_uploader lp) = Some (\<lambda>arch ts. record_at arch ts)"
  "subclass_uploader lp\<lparr>lastpost := lp'\<rparr> = subclass_uploader lp'"
  by (simp_all add: uploader_def subclass_uploader_def)

lemma good_device_never_raises: "\<forall>t ev. good_device t ev = None"
  by (simp add: good_device_def)

lemma sample_body_conv_fails:
  "session_body station_config conv_fails packet [] =
     (Some (APRSError ''Failed to send TNC commands: write failed''),
      take 8 (tnc_script station_config packet))"
  by (simp add: session_body_def send_tnc_commands_def commands_def
      call_def conv_fails_def tnc_script_def CR_def CTRL_C_def)

lemma sample_script:
  "tnc_script station_config packet =
     [FlushOutput, FlushInput,
      Write [CHR 0x03], Sleep 1,
      Write (''mycall N0CALL-13'' @ [CHR 0x0D]), Sleep 1,
      Write (''unproto APRS via WIDE2-1'' @ [CHR 0x0D]), Sleep 1,
      Write (''conv'' @ [CHR 0x0D]), Sleep 1,
      Write (packet @ [CHR 0x0D]), Sleep 1,
      Write (''>weewx'' @ [CHR 0x0D]), Sleep 1,
      Write [CHR 0x03]]"
  by (simp add: tnc_script_def station_config_def raw_config_def)

text \<open>
  C9. The body of the \<^verbatim>\<open>with\<close> statement flushes the output and the input buffer and
  then runs \<^verbatim>\<open>_send_tnc_commands\<close>. On a port on which no call raises it performs exactly
  the scripted sequence: control byte 0x03, 1 s; \<open>mycall\<close> and the station, 1 s;
  \<open>unproto\<close> and the path, 1 s; \<open>conv\<close>, 1 s; the packet, 1 s; \<open>>\<close> and the status
  message, 1 s; control byte 0x03 and no wait; every command but the control bytes
  ended by a carriage return. On any port what it performs is an initial part of that
  sequence, and the whole sequence exactly when it ends without an exception.
\<close>

theorem session_body_sequence:
  "((\<forall>t ev. dev t ev = None) \<longrightarrow>
      session_body c dev packet tr =
        (None, tr @
          [FlushOutput, FlushInput,
           Write [CHR 0x03], Sleep 1,
           Write (''mycall '' @ station c @ [CHR 0x0D]), Sleep 1,
           Write (''unproto '' @ unproto c @ [CHR 0x0D]), Sleep 1,
           Write (''conv'' @ [CHR 0x0D]), Sleep 1,
           Write (packet @ [CHR 0x0D]), Sleep 1,
           Write (''>'' @ status_message c @ [CHR 0x0D]), Sleep 1,
           Write [CHR 0x03]])
      \<and> send_tnc_commands c dev packet tr =
        (None, tr @
          [Write [CHR 0x03], Sleep 1,
           Write (''mycall '' @ station c @ [CHR 0x0D]), Sleep 1,
           Write (''unproto '' @ unproto c @ [CHR 0x0D]), Sleep 1,
           Write (''conv'' @ [CHR 0x0D]), Sleep 1,
           Write (packet @ [CHR 0x0D]), Sleep 1,
           Write (''>'' @ status_message c @ [CHR 0x0D]), Sleep 1,
           Write [CHR 0x03]]))
   \<and> (session_body c dev packet tr = (res, tr') \<longrightarrow>
        (\<exists>es. tr' = tr @ es
           \<and> prefix es
               [FlushOutput, FlushInput,
                Write [CHR 0x03], Sleep 1,
                Write (''mycall '' @ station c @ [CHR 0x0D]), Sleep 1,
                Write (''unproto '' @ unproto c @ [CHR 0x0D]), Sleep 1,
                Write (''conv'' @ [CHR 0x0D]), Sleep 1,
                Write (packet @ [CHR 0x0D]), Sleep 1,
                Write (''>'' @ status_message c @ [CHR 0x0D]), Sleep 1,
                Write [CHR 0x03]]
           \<and> (res = None \<longleftrightarrow> es = tnc_script c packet)))"
proof -
  have s: "tnc_script c packet =
          [FlushOutput, FlushInput,
           Write [CHR 0x03], Sleep 1,
           Write (''mycall '' @ station c @ [CHR 0x0D]), Sleep 1,
           Write (''unproto '' @ unproto c @ [CHR 0x0D]), Sleep 1,
           Write (''conv'' @ [CHR 0x0D]), Sleep 1,
           Write (packet @ [CHR 0x0D]), Sleep 1,
           Write (''>'' @ status_message c @ [CHR 0x0D]), Sleep 1,
           Write [CHR 0x03]]"
    by (simp add: tnc_script_def)
  have e: "script_events (commands c packet) =
          [Write [CHR 0x03], Sleep 1,
           Write (''mycall '' @ station c @ [CHR 0x0D]), Sleep 1,
           Write (''unproto '' @ unproto c @ [CHR 0x0D]), Sleep 1,
           Write (''conv'' @ [CHR 0x0D]), Sleep 1,
           Write (packet @ [CHR 0x0D]), Sleep 1,
           Write (''>'' @ status_message c @ [CHR 0x0D]), Sleep 1,
           Write [CHR 0x03]]"
    by (simp add: commands_def CR_def CTRL_C_def)
  have 1: "session_body c dev packet tr = (None, tr @ tnc_script c packet)"
    if "\<forall>t ev. dev t ev = None"
    using that by (rule session_body_good)
  have 2: "send_tnc_commands c dev packet tr = (None, tr @ script_events (commands c packet))"
    if "\<forall>t ev. dev t ev = None"
    using that by (rule send_tnc_commands_good)
  have 3: "\<exists>es. tr' = tr @ es \<and> prefix es (tnc_script c packet)
             \<and> (res = None \<longleftrightarrow> es = tnc_script c packet)"
    if "session_body c dev packet tr = (res, tr')"
    using that by (rule session_body_trace)
  from 1 2 3 show ?thesis unfolding s e by blast
qed

theorem session_body_sequence_witness:
  "session_body station_config good_device sample_packet_text [] =
     (None,
      [FlushOutput, FlushInput,
       Write [CHR 0x03], Sleep 1,
       Write (''mycall N0CALL-13'' @ [CHR 0x0D]), Sleep 1,
       Write (''unproto APRS via WIDE2-1'' @ [CHR 0x0D]), Sleep 1,
       Write (''conv'' @ [CHR 0x0D]), Sleep 1,
       Write (sample_packet_text @ [CHR 0x0D]), Sleep 1,
       Write (''>weewx'' @ [CHR 0x0D]), Sleep 1,
       Write [CHR 0x03]])
   \<and> (\<exists>es. take 8 (tnc_script station_config sample_packet_text) = [] @ es
         \<and> prefix es (tnc_script station_config sample_packet_text)
         \<and> es \<noteq> tnc_script station_config sample_packet_text)"
proof -
  note good = session_body_sequence [THEN conjunct1, THEN mp, OF good_device_never_raises,
      THEN conjunct1]
  have 1: "session_body station_config good_device sample_packet_text [] =
     (None,
      [FlushOutput, FlushInput,
       Write [CHR 0x03], Sleep 1,
       Write (''mycall N0CALL-13'' @ [CHR 0x0D]), Sleep 1,
       Write (''unproto APRS via WIDE2-1'' @ [CHR 0x0D]), Sleep 1,
       Write (''conv'' @ [CHR 0x0D]), Sleep 1,
       Write (sample_packet_text @ [CHR 0x0D]), Sleep 1,
       Write (''>weewx'' @ [CHR 0x0D]), Sleep 1,
       Write [CHR 0x03]])"
    using good [of station_config sample_packet_text "[]"]
    by (simp add: station_config_def raw_config_def)
  note bad = session_body_sequence [THEN conjunct2, THEN mp,
      OF sample_body_conv_fails [of sample_packet_text]]
  then obtain es where "take 8 (tnc_script station_config sample_packet_text) = [] @ es"
    "prefix es (tnc_script station_config sample_packet_text)"
    "es \<noteq> tnc_script station_config sample_packet_text"
    by (auto simp: tnc_script_def)
  then have 2: "\<exists>es. take 8 (tnc_script station_config sample_packet_text) = [] @ es
         \<and> prefix es (tnc_script station_config sample_packet_text)
         \<and> es \<noteq> tnc_script station_config sample_packet_text"
    by blast
  from 1 2 show ?thesis by (rule conjI)
qed

text \<open>
  C5. The \<^verbatim>\<open>try\<close> statement of \<^verbatim>\<open>postData\<close> with the assignment after it sets the last
  post timestamp to the candidate timestamp when no call on the port raises, then having
  run the whole scripted sequence; whenever it ends without an exception, the timestamp
  is the candidate and the whole sequence has been run; whenever it raises, the
  exception is an \<open>APRSError\<close>, the object is unchanged and the sequence is incomplete.
  For \<^verbatim>\<open>postData\<close> as a whole: when it returns, the timestamp is the candidate and the
  seven commands have been written in order; when it raises, the object is unchanged; it
  returns when the gate passes, the object has the method \<^verbatim>\<open>extractRecordFrom\<close>, the
  record is in US units and is encoded, and no call on the port raises; and on an
  instance of \<^verbatim>\<open>APRS\<close> itself, which lacks the method, it raises \<open>AttributeError\<close>
  once the gate has passed.
\<close>

theorem postData_lastpost:
  "((\<forall>t ev. dev t ev = None) \<longrightarrow>
      transmit self dev packet time_ts tr
        = (None, self\<lparr>lastpost := Some time_ts\<rparr>,
           tr @ [serial_open (config self)] @ tnc_script (config self) packet @ [Close]))
   \<and> (transmit self dev packet time_ts tr = (res, self', tr') \<longrightarrow>
        (res = None \<longrightarrow>
           self' = self\<lparr>lastpost := Some time_ts\<rparr>
         \<and> tr' = tr @ [serial_open (config self)] @ tnc_script (config self) packet @ [Close])
      \<and> (res \<noteq> None \<longrightarrow>
           self' = self \<and> (\<exists>m. res = Some (APRSError m))
         \<and> tr' \<noteq> tr @ [serial_open (config self)] @ tnc_script (config self) packet @ [Close]))
   \<and> (postData ext dev self arch now time_ts tr = (res, self', tr') \<longrightarrow>
        (res = None \<longrightarrow>
           self' = self\<lparr>lastpost := Some time_ts\<rparr>
         \<and> (\<exists>p. writes tr' = writes tr @
                [[CHR 0x03],
                 ''mycall '' @ station (config self) @ [CHR 0x0D],
                 ''unproto '' @ unproto (config self) @ [CHR 0x0D],
                 ''conv'' @ [CHR 0x0D],
                 p @ [CHR 0x0D],
                 ''>'' @ status_message (config self) @ [CHR 0x0D],
                 [CHR 0x03]]))
      \<and> (res \<noteq> None \<longrightarrow> self' = self))
   \<and> (check_post_conditions self arch now time_ts = SUCCESS
        \<and> extractRecordFrom self = Some f \<and> f arch time_ts = Inr r
        \<and> r ''usUnits'' = Some (Some (weewx_US ext))
        \<and> format_weather_data ext (config self) r = Inr packet
        \<and> (\<forall>t ev. dev t ev = None) \<longrightarrow>
      postData ext dev self arch now time_ts tr
        = (None, self\<lparr>lastpost := Some time_ts\<rparr>,
           tr @ [serial_open (config self)] @ tnc_script (config self) packet @ [Close]))
   \<and> (check_post_conditions self arch now time_ts = SUCCESS
        \<and> extractRecordFrom self = None \<longrightarrow>
      (\<exists>m. postData ext dev self arch now time_ts tr = (Some (AttributeError m), self, tr)))"
proof -
  have 1: "transmit self dev packet time_ts tr
        = (None, self\<lparr>lastpost := Some time_ts\<rparr>,
           tr @ [serial_open (config self)] @ tnc_script (config self) packet @ [Close])"
    if "\<forall>t ev. dev t ev = None"
    using that by (rule transmit_good)
  have 2: "(res = None \<longrightarrow>
           self' = self\<lparr>lastpost := Some time_ts\<rparr>
         \<and> tr' = tr @ [serial_open (config self)] @ tnc_script (config self) packet @ [Close])
      \<and> (res \<noteq> None \<longrightarrow>
           self' = self \<and> (\<exists>m. res = Some (APRSError m))
         \<and> tr' \<noteq> tr @ [serial_open (config self)] @ tnc_script (config self) packet @ [Close])"
    if "transmit self dev packet time_ts tr = (res, self', tr')"
    using that by (rule transmit_outcome)
  have 3: "(res = None \<longrightarrow>
           self' = self\<lparr>lastpost := Some time_ts\<rparr>
         \<and> (\<exists>p. writes tr' = writes tr @
                [[CHR 0x03],
                 ''mycall '' @ station (config self) @ [CHR 0x0D],
                 ''unproto '' @ unproto (config self) @ [CHR 0x0D],
                 ''conv'' @ [CHR 0x0D],
                 p @ [CHR 0x0D],
                 ''>'' @ status_message (config self) @ [CHR 0x0D],
                 [CHR 0x03]]))
      \<and> (res \<noteq> None \<longrightarrow> self' = self)"
    if p: "postData ext dev self arch now time_ts tr = (res, self', tr')"
  proof -
    from postData_reaches [OF p] show ?thesis
    proof
      assume "res \<noteq> None \<and> self' = self \<and> tr' = tr"
      then show ?thesis by simp
    next
      assume "\<exists>f r packet. extractRecordFrom self = Some f \<and> f arch time_ts = Inr r
           \<and> format_weather_data ext (config self) r = Inr packet
           \<and> transmit self dev packet time_ts tr = (res, self', tr')"
      then obtain q where t: "transmit self dev q time_ts tr = (res, self', tr')"
        by blast
      have "writes (tr @ [serial_open (config self)] @ tnc_script (config self) q @ [Close])
          = writes tr @
                [[CHR 0x03],
                 ''mycall '' @ station (config self) @ [CHR 0x0D],
                 ''unproto '' @ unproto (config self) @ [CHR 0x0D],
                 ''conv'' @ [CHR 0x0D],
                 q @ [CHR 0x0D],
                 ''>'' @ status_message (config self) @ [CHR 0x0D],
                 [CHR 0x03]]"
        by (simp add: writes_append tnc_script_def serial_open_def)
      with transmit_outcome [OF t] show ?thesis by auto
    qed
  qed
  have 4: "postData ext dev self arch now time_ts tr
        = (None, self\<lparr>lastpost := Some time_ts\<rparr>,
           tr @ [serial_open (config self)] @ tnc_script (config self) packet @ [Close])"
    if "check_post_conditions self arch now time_ts = SUCCESS"
      "extractRecordFrom self = Some f" "f arch time_ts = Inr r"
      "r ''usUnits'' = Some (Some (weewx_US ext))"
      "format_weather_data ext (config self) r = Inr packet"
      "\<forall>t ev. dev t ev = None"
    using postData_posts [OF that(1-5)] transmit_good [OF that(6)] by simp
  have 5: "\<exists>m. postData ext dev self arch now time_ts tr = (Some (AttributeError m), self, tr)"
    if "check_post_conditions self arch now time_ts = SUCCESS" "extractRecordFrom self = None"
    using postData_missing_method [OF that] by (simp add: missing_method_def)
  from 1 2 3 4 5 show ?thesis by blast
qed

lemma sample_transmit_conv_fails:
  "transmit (uploader None) conv_fails sample_packet_text 1710506040 [] =
     (Some (APRSError
        ''Unexpected error during APRS upload: Failed to send TNC commands: write failed''),
      uploader None,
      [serial_open station_config] @ take 8 (tnc_script station_config sample_packet_text)
      @ [Close])"
proof -
  have "conv_fails [] (serial_open station_config) = None"
    by (simp add: conv_fails_def serial_open_def)
  then have "serial_session station_config conv_fails sample_packet_text [] =
     (Some (APRSError ''Failed to send TNC commands: write failed''),
      [serial_open station_config] @ take 8 (tnc_script station_config sample_packet_text)
      @ [Close])"
    by (simp add: serial_session_def session_body_def send_tnc_commands_def commands_def
        call_def conv_fails_def tnc_script_def CR_def CTRL_C_def serial_open_def)
  then show ?thesis
    by (simp add: transmit_def uploader_simps)
qed

lemma sample_subclass_start:
  "check_post_conditions (subclass_uploader None) (sample_archive 1710506040 sample_record)
      (dbl 17105060405 10) 1710506040 = SUCCESS
   \<and> extractRecordFrom (subclass_uploader None) = Some (\<lambda>arch ts. record_at arch ts)
   \<and> record_at (sample_archive 1710506040 sample_record) 1710506040 = Inr sample_record
   \<and> sample_record ''usUnits'' = Some (Some (weewx_US sample_ext))
   \<and> format_weather_data sample_ext (config (subclass_uploader None)) sample_record
       = Inr sample_packet_text
   \<and> (\<forall>t ev. good_device t ev = None)"
proof -
  have 1: "record_at (sample_archive 1710506040 sample_record) 1710506040 = Inr sample_record"
    by (simp add: sample_archive_def)
  have 2: "sample_record ''usUnits'' = Some (Some (weewx_US sample_ext))"
    by (simp add: sample_record_fields sample_ext_def)
  have 3: "format_weather_data sample_ext (config (subclass_uploader None)) sample_record
       = Inr sample_packet_text"
    by (simp add: uploader_simps sample_packet)
  from gate_sample(2) [of sample_record] uploader_simps(7) [of None] 1 2 3
    good_device_never_raises
  show ?thesis by (intro conjI)
qed

lemma sample_uploader_start:
  "check_post_conditions (uploader None) (sample_archive 1710506040 sample_record)
      (dbl 17105060405 10) 1710506040 = SUCCESS
   \<and> extractRecordFrom (uploader None) = None"
  using gate_sample(1) [of sample_record] uploader_simps(3) [of None] by (rule conjI)

theorem postData_lastpost_witness:
  "transmit (uploader None) good_device sample_packet_text 1710506040 []
     = (None, uploader (Some 1710506040),
        [serial_open station_config] @ tnc_script station_config sample_packet_text @ [Close])
   \<and> lastpost (uploader (Some 1710506040)) = Some 1710506040
   \<and> fst (transmit (uploader None) conv_fails sample_packet_text 1710506040 [])
       = Some (APRSError
          ''Unexpected error during APRS upload: Failed to send TNC commands: write failed'')
   \<and> fst (snd (transmit (uploader None) conv_fails sample_packet_text 1710506040 []))
       = uploader None
   \<and> postData sample_ext good_device (subclass_uploader None)
        (sample_archive 1710506040 sample_record) (dbl 17105060405 10) 1710506040 []
     = (None, subclass_uploader (Some 1710506040),
        [serial_open station_config] @ tnc_script station_config sample_packet_text @ [Close])
   \<and> (\<exists>m. postData sample_ext good_device (uploader None)
        (sample_archive 1710506040 sample_record) (dbl 17105060405 10) 1710506040 []
     = (Some (AttributeError m), uploader None, []))"
proof -
  note good = postData_lastpost [THEN conjunct1, THEN mp, OF good_device_never_raises]
  have 1: "transmit (uploader None) good_device sample_packet_text 1710506040 []
     = (None, uploader (Some 1710506040),
        [serial_open station_config] @ tnc_script station_config sample_packet_text @ [Close])"
    using good [of "uploader None" sample_packet_text 1710506040 "[]"]
    by (simp add: uploader_simps)
  note bad = postData_lastpost [THEN conjunct2, THEN conjunct1, THEN mp,
      OF sample_transmit_conv_fails, THEN conjunct2]
  have 2: "fst (transmit (uploader None) conv_fails sample_packet_text 1710506040 [])
       = Some (APRSError
          ''Unexpected error during APRS upload: Failed to send TNC commands: write failed'')"
    "fst (snd (transmit (uploader None) conv_fails sample_packet_text 1710506040 []))
       = uploader None"
    using bad by (simp_all add: sample_transmit_conv_fails)
  note posted = postData_lastpost [THEN conjunct2, THEN conjunct2, THEN conjunct2,
      THEN conjunct1, THEN mp, OF sample_subclass_start]
  have 3: "postData sample_ext good_device (subclass_uploader None)
        (sample_archive 1710506040 sample_record) (dbl 17105060405 10) 1710506040 []
     = (None, subclass_uploader (Some 1710506040),
        [serial_open station_config] @ tnc_script station_config sample_packet_text @ [Close])"
    using posted [of "[]"] by (simp add: uploader_simps)
  note missing = postData_lastpost [THEN conjunct2, THEN conjunct2, THEN conjunct2,
      THEN conjunct2, THEN mp, OF sample_uploader_start]
  have 4: "\<exists>m. postData sample_ext good_device (uploader None)
        (sample_archive 1710506040 sample_record) (dbl 17105060405 10) 1710506040 []
     = (Some (AttributeError m), uploader None, [])"
    using missing [of sample_ext good_device "[]"] .
  have 5: "lastpost (uploader (Some 1710506040)) = Some 1710506040"
    by (simp add: uploader_simps)
  from 1 5 2 3 4 show ?thesis by (intro conjI)
qed

end
